theory Spec2Isabelle
  imports Main
begin

section \<open>The question orchestrator of \<^verbatim>\<open>pipeline_orchestration.py\<close>\<close>

text \<open>
  The module classifies a question with one text-generation call, dispatches it to a
  retrieval endpoint, a statistics endpoint or both, and returns a dictionary with the
  question, the response text, the route and an optional error text. Everything the
  module does to the outside (two HTTP endpoints, one text-generation service) is a
  parameter of the model, and every call made is written to a log, so that statements
  about which calls happen are statements about that log.

  Strings are ASCII texts (\<^typ>\<open>string\<close>); an exception is a value of \<open>exn\<close>, and a
  function of the source that may raise returns \<open>exn + 'a\<close>, with \<^const>\<open>Inl\<close> the
  exception raised.
\<close>

subsection \<open>Exceptions\<close>

datatype exn =
    KeyError string
  | IndexError
  | ValueError string
  | GraphRecursionError
  | Raised string

text \<open>
  \<open>Raised m\<close> is any exception of class \<^verbatim>\<open>Exception\<close> coming from outside (the HTTP
  library, the JSON decoder, the text-generation client) whose \<^verbatim>\<open>str(e)\<close> is \<open>m\<close>.
  \<open>str_exn\<close> is Python's \<^verbatim>\<open>str(e)\<close>: a \<^verbatim>\<open>KeyError\<close> prints the repr of the
  missing key.
\<close>

fun str_exn :: "exn \<Rightarrow> string" where
  "str_exn (KeyError k) = [CHR 0x27] @ k @ [CHR 0x27]"
| "str_exn IndexError = ''list index out of range''"
| "str_exn (ValueError m) = m"
| "str_exn GraphRecursionError = ''Recursion limit of 25 reached without hitting a stop condition.''"
| "str_exn (Raised m) = m"

subsection \<open>String normalisation: \<^verbatim>\<open>.strip().upper()\<close>\<close>

text \<open>
  \<^verbatim>\<open>str.strip()\<close> removes the leading and trailing characters for which
  \<^verbatim>\<open>str.isspace\<close> holds; among ASCII characters these are the codes 9 to 13, 28 to
  31 and 32. \<^verbatim>\<open>str.upper()\<close> maps the letters \<^verbatim>\<open>a\<close> to \<^verbatim>\<open>z\<close> to capitals and
  leaves every other ASCII character as it is. Texts with characters outside ASCII are
  outside the model.
\<close>

definition isspace :: "char \<Rightarrow> bool" where
  "isspace c = (of_char c \<in> {9, 10, 11, 12, 13, 28, 29, 30, 31, 32 :: nat})"

definition strip :: "string \<Rightarrow> string" where
  "strip s = rev (dropWhile isspace (rev (dropWhile isspace s)))"

definition upper_char :: "char \<Rightarrow> char" where
  "upper_char c =
     (case map_of (zip ''abcdefghijklmnopqrstuvwxyz'' ''ABCDEFGHIJKLMNOPQRSTUVWXYZ'') c of
        Some u \<Rightarrow> u
      | None \<Rightarrow> c)"

definition upper :: "string \<Rightarrow> string" where
  "upper s = map upper_char s"

subsection \<open>Messages and the workflow state\<close>

datatype BaseMessage = HumanMessage string | AIMessage string

fun content :: "BaseMessage \<Rightarrow> string" where
  "content (HumanMessage c) = c"
| "content (AIMessage c) = c"

record State =
  messages :: "BaseMessage list"
  next_step :: string
  current_response :: string
  error :: "string option"

text \<open>\<^verbatim>\<open>state["messages"][-1]\<close>: an \<^verbatim>\<open>IndexError\<close> on an empty list.\<close>

definition last_message :: "BaseMessage list \<Rightarrow> exn + BaseMessage" where
  "last_message ms = (if ms = [] then Inl IndexError else Inr (last ms))"

subsection \<open>The outside world and the log of calls\<close>

text \<open>
  A JSON payload is a dictionary from keys to texts. \<open>rag_service\<close> and \<open>sql_service\<close>
  stand for \<^verbatim>\<open>requests.post(...)\<close> followed by \<^verbatim>\<open>response.json()\<close>; each
  either raises or returns. One run of the workflow sends each of them at most one
  request per distinct argument, so a function of the argument loses no behaviour.
  The values of a payload are texts (the source declares \<^verbatim>\<open>Dict\<close> and reads the keys
  \<^verbatim>\<open>answer\<close> and \<^verbatim>\<open>sql_query\<close>); a missing key raises \<^verbatim>\<open>KeyError\<close>.

  The text-generation client has two steps, and either may raise. \<open>chat_openai\<close> is the
  outcome of building the client, \<^verbatim>\<open>ChatOpenAI(temperature=0)\<close>: the exception it
  raises, if any. \<open>llm_content\<close> is \<^verbatim>\<open>llm.invoke(prompt).content\<close> on a client that
  was built. \<open>llm_invoke\<close> is the value of the whole expression
  \<^verbatim>\<open>ChatOpenAI(temperature=0).invoke(prompt).content\<close>. The log gets an entry
  \<open>LLMCall\<close> when \<^verbatim>\<open>invoke\<close> is called, not when the client is built.
\<close>

type_synonym json = "string \<rightharpoonup> string"

record world =
  chat_openai :: "exn option"
  llm_content :: "string \<Rightarrow> exn + string"
  rag_service :: "string \<Rightarrow> exn + json"
  sql_service :: "string \<Rightarrow> exn + json"

datatype call = LLMCall string | RagPost string | SqlPost string

type_synonym 'a io = "call list \<Rightarrow> (exn + 'a) \<times> call list"

definition getitem :: "json \<Rightarrow> string \<Rightarrow> exn + string" where
  "getitem d k = (case d k of None \<Rightarrow> Inl (KeyError k) | Some v \<Rightarrow> Inr v)"

definition call_rag_endpoint :: "world \<Rightarrow> string \<Rightarrow> json io" where
  "call_rag_endpoint w question log = (rag_service w question, log @ [RagPost question])"

definition call_sql_endpoint :: "world \<Rightarrow> string \<Rightarrow> json io" where
  "call_sql_endpoint w question log = (sql_service w question, log @ [SqlPost question])"

definition ChatOpenAI :: "world \<Rightarrow> exn + (string \<Rightarrow> exn + string)" where
  "ChatOpenAI w = (case chat_openai w of Some e \<Rightarrow> Inl e | None \<Rightarrow> Inr (llm_content w))"

definition invoke_llm :: "(string \<Rightarrow> exn + string) \<Rightarrow> string \<Rightarrow> string io" where
  "invoke_llm llm prompt log = (llm prompt, log @ [LLMCall prompt])"

definition llm_invoke :: "world \<Rightarrow> string \<Rightarrow> exn + string" where
  "llm_invoke w prompt = (case ChatOpenAI w of Inl e \<Rightarrow> Inl e | Inr llm \<Rightarrow> llm prompt)"

subsection \<open>The two prompts\<close>

definition routing_prompt :: "string \<Rightarrow> string" where
  \<open>routing_prompt last_message_content =
     ''Given the user question: '' @ [CHR 0x27] @ last_message_content @ [CHR 0x27] @ ''\<newline>''
   @ ''    We have two different movie databases:\<newline>''
   @ ''\<newline>''
   @ ''    1. Pagila (SQL): Contains basic movie information and rental data:\<newline>''
   @ ''       - Basic info: title, release year, rating, language, duration\<newline>''
   @ ''       - Rental data: rental counts, inventory, popularity metrics\<newline>''
   @ ''       - Example queries: \<newline>''
   @ ''         - "When was X released?"\<newline>''
   @ ''         - "What's the rating of X?"\<newline>''
   @ ''         - "most rented movies"\<newline>''
   @ ''         - "rental counts"\<newline>''
   @ ''         - "popular genres"\<newline>''
   @ ''    \<newline>''
   @ ''    2. CMU Movie Summaries (RAG): Contains detailed movie information:\<newline>''
   @ ''       - Plot summaries\<newline>''
   @ ''       - Themes and story elements\<newline>''
   @ ''       - Actor roles and character information\<newline>''
   @ ''       - Example queries:\<newline>''
   @ ''         - "What is the plot of X?"\<newline>''
   @ ''         - "movies about Y theme"\<newline>''
   @ ''         - "who played Z character?"\<newline>''
   @ ''         - "find movies similar to X"\<newline>''
   @ ''\<newline>''
   @ ''    Determine if this question requires:\<newline>''
   @ ''    1. SQL (Pagila) - for rental/inventory/basic stats\<newline>''
   @ ''    2. RAG (CMU Summaries) - for plot/content/detailed info\<newline>''
   @ ''    3. BOTH - only if the question specifically needs to combine rental data with detailed movie information\<newline>''
   @ ''    \<newline>''
   @ ''    Respond with only one of: 'RAG', 'SQL', or 'BOTH'\<newline>''
   @ ''    \<newline>''
   @ ''    Question type analysis:\<newline>''
   @ ''    1. If asking about rentals, counts, or popularity -> SQL\<newline>''
   @ ''    2. If asking about plot, story, or movie details -> RAG\<newline>''
   @ ''    3. If explicitly combining rental metrics with movie details -> BOTH\<newline>''
   @ ''    \<newline>''
   @ ''    If user has specifically asked to ue SQL then use the 'SQL' or 'BOTH'\<newline>''
   @ ''    if you think the question asked is based on previous question and if previous question used 'SQL'\<newline>''
   @ ''    then just use 'SQL''\<close>

definition integration_prompt :: "string \<Rightarrow> string \<Rightarrow> string \<Rightarrow> string" where
  \<open>integration_prompt question sql_answer rag_answer =
     ''Given a user question and two different sources of movie information, create a coherent, integrated response.\<newline>''
   @ ''\<newline>''
   @ ''User Question: '' @ question @ ''\<newline>''
   @ ''\<newline>''
   @ ''Source 1 (Database/SQL Information about rentals and statistics):\<newline>''
   @ sql_answer @ ''\<newline>''
   @ ''\<newline>''
   @ ''Source 2 (Movie Details/Plot Information):\<newline>''
   @ rag_answer @ ''\<newline>''
   @ ''\<newline>''
   @ ''Please analyze both sources and create a comprehensive response that:\<newline>''
   @ ''1. Integrates relevant information from both sources\<newline>''
   @ ''2. Highlights any interesting connections or patterns\<newline>''
   @ ''3. Addresses the user's question completely\<newline>''
   @ ''4. Acknowledges if certain information is missing from either source\<newline>''
   @ ''\<newline>''
   @ ''Response should be clear, well-organized, and natural-sounding.''\<close>

subsection \<open>The nodes\<close>

text \<open>
  A node takes the state and the log and returns the state it hands back, or the
  exception that leaves it, with the log extended by the calls it made.
  \<open>determine_route\<close> has no handler: an exception of building the client or of the
  generation call leaves it.
\<close>

type_synonym node_fn = "State \<Rightarrow> State io"

definition determine_route :: "world \<Rightarrow> node_fn" where
  "determine_route w state log =
     (case last_message (messages state) of
        Inl e \<Rightarrow> (Inl e, log)
      | Inr m \<Rightarrow>
          (case ChatOpenAI w of
             Inl e \<Rightarrow> (Inl e, log)
           | Inr llm \<Rightarrow>
               (case invoke_llm llm (routing_prompt (content m)) log of
                  (Inl e, log') \<Rightarrow> (Inl e, log')
                | (Inr text, log') \<Rightarrow>
                    (Inr (state\<lparr>next_step := upper (strip text)\<rparr>), log'))))"

definition route_to_node :: "State \<Rightarrow> string" where
  "route_to_node state =
     (if next_step state = ''RAG'' then ''rag_node''
      else if next_step state = ''SQL'' then ''sql_node''
      else ''both_node'')"

text \<open>
  In the three branch nodes the question is read before the \<^verbatim>\<open>try\<close>; everything
  after it is inside, and the handler catches every \<^verbatim>\<open>Exception\<close>. In
  \<open>both_node\<close> the client is built after the two endpoint calls and before the prompt
  reads the two answers, statistics first.
\<close>

definition rag_node :: "world \<Rightarrow> node_fn" where
  "rag_node w state log =
     (case last_message (messages state) of
        Inl e \<Rightarrow> (Inl e, log)
      | Inr m \<Rightarrow>
          (case call_rag_endpoint w (content m) log of
             (Inl e, log') \<Rightarrow>
               (Inr (state\<lparr>error := Some (str_exn e),
                     current_response := ''Error calling RAG endpoint: '' @ str_exn e\<rparr>), log')
           | (Inr result, log') \<Rightarrow>
               (case getitem result ''answer'' of
                  Inl e \<Rightarrow>
                    (Inr (state\<lparr>error := Some (str_exn e),
                          current_response := ''Error calling RAG endpoint: '' @ str_exn e\<rparr>), log')
                | Inr answer \<Rightarrow> (Inr (state\<lparr>current_response := answer\<rparr>), log'))))"

definition sql_handler :: "State \<Rightarrow> exn \<Rightarrow> State" where
  "sql_handler state e =
     state\<lparr>error := Some (str_exn e),
           current_response := ''Error calling SQL endpoint: '' @ str_exn e\<rparr>"

definition sql_node :: "world \<Rightarrow> node_fn" where
  "sql_node w state log =
     (case last_message (messages state) of
        Inl e \<Rightarrow> (Inl e, log)
      | Inr m \<Rightarrow>
          (case call_sql_endpoint w (content m) log of
             (Inl e, log') \<Rightarrow> (Inr (sql_handler state e), log')
           | (Inr result, log') \<Rightarrow>
               (case getitem result ''sql_query'' of
                  Inl e \<Rightarrow> (Inr (sql_handler state e), log')
                | Inr sql_query \<Rightarrow>
                    (case getitem result ''answer'' of
                       Inl e \<Rightarrow> (Inr (sql_handler state e), log')
                     | Inr answer \<Rightarrow>
                         (Inr (state\<lparr>current_response :=
                                 ''SQL Query: '' @ sql_query @ ''\<newline>Answer: '' @ answer\<rparr>),
                          log')))))"

definition both_handler :: "State \<Rightarrow> exn \<Rightarrow> State" where
  "both_handler state e =
     state\<lparr>error := Some (str_exn e),
           current_response := ''Error processing combined query: '' @ str_exn e\<rparr>"

definition both_node :: "world \<Rightarrow> node_fn" where
  "both_node w state log =
     (case last_message (messages state) of
        Inl e \<Rightarrow> (Inl e, log)
      | Inr m \<Rightarrow>
          (let question = content m in
           case call_rag_endpoint w question log of
             (Inl e, log1) \<Rightarrow> (Inr (both_handler state e), log1)
           | (Inr rag_result, log1) \<Rightarrow>
               (case call_sql_endpoint w question log1 of
                  (Inl e, log2) \<Rightarrow> (Inr (both_handler state e), log2)
                | (Inr sql_result, log2) \<Rightarrow>
                    (case ChatOpenAI w of
                       Inl e \<Rightarrow> (Inr (both_handler state e), log2)
                     | Inr llm \<Rightarrow>
                         (case getitem sql_result ''answer'' of
                            Inl e \<Rightarrow> (Inr (both_handler state e), log2)
                          | Inr sql_answer \<Rightarrow>
                              (case getitem rag_result ''answer'' of
                                 Inl e \<Rightarrow> (Inr (both_handler state e), log2)
                               | Inr rag_answer \<Rightarrow>
                                   (case invoke_llm llm
                                           (integration_prompt question sql_answer rag_answer)
                                           log2 of
                                      (Inl e, log3) \<Rightarrow> (Inr (both_handler state e), log3)
                                    | (Inr integrated_response, log3) \<Rightarrow>
                                        (Inr (state\<lparr>current_response := integrated_response\<rparr>),
                                         log3))))))))"

subsection \<open>The workflow graph\<close>

text \<open>
  \<^verbatim>\<open>StateGraph\<close> belongs to the langgraph library. The model keeps what
  \<^verbatim>\<open>create_workflow\<close> uses of it: named nodes, an entry point, conditional edges
  (a path function and a mapping from its results to nodes) and plain edges. A compiled
  graph runs the entry node, then follows the edge leaving the node just run, until the
  edge leads to \<open>END\<close>; the library stops a run with \<^verbatim>\<open>GraphRecursionError\<close>
  after \<open>recursion_limit\<close> steps (25 unless configured), and this module configures
  nothing. The run also records the names of the nodes it executed, in order.
\<close>

record StateGraph =
  nodes :: "(string \<times> node_fn) list"
  entry_point :: "string option"
  branches :: "(string \<times> (State \<Rightarrow> string) \<times> (string \<times> string) list) list"
  edges :: "(string \<times> string) list"

definition END :: string where
  "END = ''__end__''"

definition recursion_limit :: nat where
  "recursion_limit = 25"

definition new_StateGraph :: StateGraph where
  "new_StateGraph = \<lparr>nodes = [], entry_point = None, branches = [], edges = []\<rparr>"

definition add_node :: "string \<Rightarrow> node_fn \<Rightarrow> StateGraph \<Rightarrow> StateGraph" where
  "add_node name f g = g\<lparr>nodes := nodes g @ [(name, f)]\<rparr>"

definition set_entry_point :: "string \<Rightarrow> StateGraph \<Rightarrow> StateGraph" where
  "set_entry_point name g = g\<lparr>entry_point := Some name\<rparr>"

definition add_conditional_edges ::
  "string \<Rightarrow> (State \<Rightarrow> string) \<Rightarrow> (string \<times> string) list \<Rightarrow> StateGraph \<Rightarrow> StateGraph" where
  "add_conditional_edges source path path_map g =
     g\<lparr>branches := branches g @ [(source, path, path_map)]\<rparr>"

definition add_edge :: "string \<Rightarrow> string \<Rightarrow> StateGraph \<Rightarrow> StateGraph" where
  "add_edge source target g = g\<lparr>edges := edges g @ [(source, target)]\<rparr>"

text \<open>The node that follows \<open>n\<close> when \<open>n\<close> returned the state \<open>s\<close>.\<close>

definition successor :: "StateGraph \<Rightarrow> string \<Rightarrow> State \<Rightarrow> exn + string" where
  "successor g n s =
     (case map_of (branches g) n of
        Some (path, path_map) \<Rightarrow>
          (case map_of path_map (path s) of
             Some target \<Rightarrow> Inr target
           | None \<Rightarrow> Inl (ValueError (''Branch did not return a valid destination: '' @ path s)))
      | None \<Rightarrow>
          (case map_of (edges g) n of
             Some target \<Rightarrow> Inr target
           | None \<Rightarrow> Inr END))"

fun run_from ::
  "nat \<Rightarrow> StateGraph \<Rightarrow> string \<Rightarrow> State \<Rightarrow> call list \<Rightarrow> string list
     \<Rightarrow> (exn + State) \<times> call list \<times> string list" where
  "run_from 0 g n s log visited = (Inl GraphRecursionError, log, visited)"
| "run_from (Suc fuel) g n s log visited =
     (case map_of (nodes g) n of
        None \<Rightarrow> (Inl (ValueError (''Unknown node: '' @ n)), log, visited)
      | Some f \<Rightarrow>
          (case f s log of
             (Inl e, log') \<Rightarrow> (Inl e, log', visited @ [n])
           | (Inr s', log') \<Rightarrow>
               (case successor g n s' of
                  Inl e \<Rightarrow> (Inl e, log', visited @ [n])
                | Inr target \<Rightarrow>
                    if target = END then (Inr s', log', visited @ [n])
                    else run_from fuel g target s' log' (visited @ [n]))))"

definition invoke :: "StateGraph \<Rightarrow> State \<Rightarrow> (exn + State) \<times> call list \<times> string list" where
  "invoke g initial =
     (case entry_point g of
        None \<Rightarrow> (Inl (ValueError ''Graph must have an entrypoint''), [], [])
      | Some n \<Rightarrow> run_from recursion_limit g n initial [] [])"

definition create_workflow :: "world \<Rightarrow> StateGraph" where
  "create_workflow w =
     (add_edge ''both_node'' END
     (add_edge ''sql_node'' END
     (add_edge ''rag_node'' END
     (add_conditional_edges ''determine_route'' route_to_node
        [(''rag_node'', ''rag_node''), (''sql_node'', ''sql_node''), (''both_node'', ''both_node'')]
     (set_entry_point ''determine_route''
     (add_node ''both_node'' (both_node w)
     (add_node ''sql_node'' (sql_node w)
     (add_node ''rag_node'' (rag_node w)
     (add_node ''determine_route'' (determine_route w)
      new_StateGraph)))))))))"

subsection \<open>\<^verbatim>\<open>process_question\<close>\<close>

text \<open>
  The dictionary returned by \<^verbatim>\<open>process_question\<close>. Its key \<^verbatim>\<open>"error"\<close> is the
  field \<open>error_out\<close> here, since the state already has a field of that name.
\<close>

record Result =
  question :: string
  response :: string
  route_taken :: string
  error_out :: "string option"

definition initial_state :: "string \<Rightarrow> State" where
  "initial_state q =
     \<lparr>messages = [HumanMessage q], next_step = [], current_response = [], error = None\<rparr>"

text \<open>
  \<open>run_workflow\<close> is the call \<^verbatim>\<open>workflow.invoke(initial_state)\<close> inside
  \<^verbatim>\<open>process_question\<close>: the final state or the exception, the calls made and the nodes
  executed. \<open>process_question\<close> is what the caller gets: the dictionary, or the
  exception that escapes.
\<close>

definition run_workflow :: "world \<Rightarrow> string \<Rightarrow> (exn + State) \<times> call list \<times> string list" where
  "run_workflow w q = invoke (create_workflow w) (initial_state q)"

definition calls_made :: "world \<Rightarrow> string \<Rightarrow> call list" where
  "calls_made w q = fst (snd (run_workflow w q))"

definition nodes_run :: "world \<Rightarrow> string \<Rightarrow> string list" where
  "nodes_run w q = snd (snd (run_workflow w q))"

definition process_question :: "world \<Rightarrow> string \<Rightarrow> exn + Result" where
  "process_question w q =
     (case fst (run_workflow w q) of
        Inl e \<Rightarrow> Inl e
      | Inr final_state \<Rightarrow>
          Inr \<lparr>question = q,
               response = current_response final_state,
               route_taken = next_step final_state,
               error_out = error final_state\<rparr>)"

subsection \<open>The branch node reached from a router result\<close>

text \<open>
  Not a function of the source: the node function that \<^verbatim>\<open>create_workflow\<close> registers
  under a branch name, used to state what a run of the graph does.
\<close>

definition branch_fn :: "world \<Rightarrow> string \<Rightarrow> node_fn" where
  "branch_fn w n =
     (if n = ''rag_node'' then rag_node w
      else if n = ''sql_node'' then sql_node w
      else both_node w)"

subsection \<open>Concrete worlds\<close>

text \<open>
  Stubs of the three services, used to run the workflow on concrete inputs: a retrieval
  and a statistics service that answer, and text-generation services that answer with a
  fixed text, that are down, or that classify and then fail on the integration prompt.
  \<open>mk_world\<close> puts them together with a client that can be built; \<open>without_api_key\<close>
  is the same world with a client that cannot.
\<close>

definition rag_up :: "string \<Rightarrow> exn + json" where
  "rag_up q = Inr [''answer'' \<mapsto> ''A heist in dreams.'']"

definition sql_up :: "string \<Rightarrow> exn + json" where
  "sql_up q = Inr [''sql_query'' \<mapsto> ''SELECT title FROM film LIMIT 5'', ''answer'' \<mapsto> ''Movie A, Movie B'']"

definition service_down :: "string \<Rightarrow> exn + json" where
  "service_down q = Inl (Raised ''Connection refused'')"

definition rag_empty_answer :: "string \<Rightarrow> exn + json" where
  "rag_empty_answer q = Inr [''answer'' \<mapsto> []]"

definition llm_says :: "string \<Rightarrow> string \<Rightarrow> exn + string" where
  "llm_says text prompt = Inr text"

definition llm_down :: "string \<Rightarrow> exn + string" where
  "llm_down prompt = Inl (Raised ''Rate limit exceeded'')"

definition llm_both_then_down :: "string \<Rightarrow> exn + string" where
  "llm_both_then_down prompt =
     (if take 12 prompt = ''Given a user'' then Inl (Raised ''Request timed out'')
      else Inr ''BOTH'')"

definition mk_world ::
  "(string \<Rightarrow> exn + string) \<Rightarrow> (string \<Rightarrow> exn + json) \<Rightarrow> (string \<Rightarrow> exn + json) \<Rightarrow> world" where
  "mk_world l r s =
     \<lparr>chat_openai = None, llm_content = l, rag_service = r, sql_service = s\<rparr>"

definition without_api_key :: "world \<Rightarrow> world" where
  "without_api_key w = w\<lparr>chat_openai := Some (Raised ''OPENAI_API_KEY is not set'')\<rparr>"

section \<open>What a run of the workflow does\<close>

lemma llm_invoke_built:
  "chat_openai w = None \<Longrightarrow> llm_invoke w prompt = llm_content w prompt"
  by (simp add: llm_invoke_def ChatOpenAI_def)

lemma llm_invoke_returned:
  "llm_invoke w prompt = Inr d \<Longrightarrow> chat_openai w = None"
  by (simp add: llm_invoke_def ChatOpenAI_def split: option.splits)

lemma llm_invoke_returned_client:
  "llm_invoke w prompt = Inr d \<Longrightarrow> ChatOpenAI w = Inr (llm_content w)"
  by (simp add: llm_invoke_def ChatOpenAI_def split: option.splits)

lemma llm_invoke_mk_world: "llm_invoke (mk_world l r s) prompt = l prompt"
  by (simp add: llm_invoke_def ChatOpenAI_def mk_world_def)

lemma graph_nodes: "map_of (nodes (create_workflow w)) =
  [''determine_route'' \<mapsto> determine_route w, ''rag_node'' \<mapsto> rag_node w,
   ''sql_node'' \<mapsto> sql_node w, ''both_node'' \<mapsto> both_node w]"
  by (rule ext) (simp add: create_workflow_def add_edge_def add_conditional_edges_def set_entry_point_def add_node_def new_StateGraph_def)

lemma graph_entry: "entry_point (create_workflow w) = Some ''determine_route''"
  by (simp add: create_workflow_def add_edge_def add_conditional_edges_def set_entry_point_def add_node_def new_StateGraph_def)

lemma route_to_node_cases: "route_to_node s = ''rag_node'' \<or> route_to_node s = ''sql_node'' \<or> route_to_node s = ''both_node''"
  by (simp add: route_to_node_def)

lemma successor_determine_route: "successor (create_workflow w) ''determine_route'' s = Inr (route_to_node s)"
  using route_to_node_cases [of s]
  by (auto simp add: successor_def create_workflow_def add_edge_def add_conditional_edges_def set_entry_point_def add_node_def new_StateGraph_def)

lemma successor_branch:
  "n \<in> {''rag_node'', ''sql_node'', ''both_node''} \<Longrightarrow> successor (create_workflow w) n s = Inr END"
  by (auto simp add: successor_def create_workflow_def add_edge_def add_conditional_edges_def set_entry_point_def add_node_def new_StateGraph_def)

lemma run_branch:
  assumes "n \<in> {''rag_node'', ''sql_node'', ''both_node''}"
  shows "run_from (Suc k) (create_workflow w) n s log vis =
     (case branch_fn w n s log of (r, log') \<Rightarrow> (r, log', vis @ [n]))"
proof -
  have f: "map_of (nodes (create_workflow w)) n = Some (branch_fn w n)"
    using assms by (auto simp add: graph_nodes branch_fn_def)
  show ?thesis
    by (simp add: f successor_branch [OF assms] split: prod.splits sum.splits)
qed

lemma run_determine:
  "run_from (Suc (Suc k)) (create_workflow w) ''determine_route'' s0 log0 vis =
     (case determine_route w s0 log0 of
        (Inl e, log) \<Rightarrow> (Inl e, log, vis @ [''determine_route''])
      | (Inr s, log) \<Rightarrow>
          (case branch_fn w (route_to_node s) s log of
             (r, log') \<Rightarrow> (r, log', vis @ [''determine_route'', route_to_node s])))"
proof -
  have ne: "route_to_node s \<noteq> END" for s
    by (simp add: route_to_node_def END_def)
  have mem: "route_to_node s \<in> {''rag_node'', ''sql_node'', ''both_node''}" for s
    using route_to_node_cases [of s] by blast
  have f: "map_of (nodes (create_workflow w)) ''determine_route'' = Some (determine_route w)"
    by (simp add: graph_nodes)
  have step: "run_from (Suc (Suc k)) (create_workflow w) ''determine_route'' s0 log0 vis =
     (case determine_route w s0 log0 of
        (Inl e, log) \<Rightarrow> (Inl e, log, vis @ [''determine_route''])
      | (Inr s, log) \<Rightarrow>
          run_from (Suc k) (create_workflow w) (route_to_node s) s log (vis @ [''determine_route'']))"
    by (subst run_from.simps)
       (simp add: f successor_determine_route ne split: prod.splits sum.splits del: run_from.simps)
  show ?thesis
    unfolding step run_branch [OF mem]
    by (simp split: prod.splits sum.splits del: run_from.simps)
qed

lemma run_workflow_unfold:
  "run_workflow w q =
     (case determine_route w (initial_state q) [] of
        (Inl e, log) \<Rightarrow> (Inl e, log, [''determine_route''])
      | (Inr s, log) \<Rightarrow>
          (case branch_fn w (route_to_node s) s log of
             (r, log') \<Rightarrow> (r, log', [''determine_route'', route_to_node s])))"
proof -
  have lim: "recursion_limit = Suc (Suc 23)" by (simp add: recursion_limit_def)
  show ?thesis
    unfolding run_workflow_def invoke_def graph_entry lim option.case run_determine
    by (simp only: append_Nil)
qed

lemma prompts_differ: "routing_prompt q \<noteq> integration_prompt q' a b"
  unfolding routing_prompt_def integration_prompt_def
  by (simp only: append_Cons list.inject char.inject simp_thms)

lemma determine_route_initial:
  "determine_route w (initial_state q) [] =
     (case llm_invoke w (routing_prompt q) of
        Inl e \<Rightarrow>
          (Inl e, if chat_openai w = None then [LLMCall (routing_prompt q)] else [])
      | Inr d \<Rightarrow> (Inr ((initial_state q)\<lparr>next_step := upper (strip d)\<rparr>),
                  [LLMCall (routing_prompt q)]))"
  by (simp add: determine_route_def initial_state_def last_message_def invoke_llm_def
        llm_invoke_def ChatOpenAI_def split: sum.splits option.splits)

lemma run_classifier_raises:
  assumes "llm_invoke w (routing_prompt q) = Inl e"
  shows "run_workflow w q =
     (Inl e, if chat_openai w = None then [LLMCall (routing_prompt q)] else [],
      [''determine_route''])"
  by (simp add: run_workflow_unfold determine_route_initial assms)

lemma run_classified:
  assumes "llm_invoke w (routing_prompt q) = Inr d"
  shows "run_workflow w q =
     (case branch_fn w (route_to_node ((initial_state q)\<lparr>next_step := upper (strip d)\<rparr>))
             ((initial_state q)\<lparr>next_step := upper (strip d)\<rparr>)
             [LLMCall (routing_prompt q)] of
        (r, log') \<Rightarrow>
          (r, log', [''determine_route'',
                     route_to_node ((initial_state q)\<lparr>next_step := upper (strip d)\<rparr>)]))"
  by (simp add: run_workflow_unfold determine_route_initial assms)

lemma llm_both_then_down_routing: "llm_both_then_down (routing_prompt q) = Inr ''BOTH''"
  by (simp add: llm_both_then_down_def routing_prompt_def)

lemma llm_both_then_down_integration:
  "llm_both_then_down (integration_prompt q a b) = Inl (Raised ''Request timed out'')"
  by (simp add: llm_both_then_down_def integration_prompt_def)

lemma run_both_route:
  assumes "llm_invoke w (routing_prompt q) = Inr d"
    and "upper (strip d) \<noteq> ''RAG''" and "upper (strip d) \<noteq> ''SQL''"
  shows "run_workflow w q =
     (case both_node w ((initial_state q)\<lparr>next_step := upper (strip d)\<rparr>)
             [LLMCall (routing_prompt q)] of
        (r, log') \<Rightarrow> (r, log', [''determine_route'', ''both_node'']))"
  using assms(2,3)
  by (simp add: run_classified [OF assms(1)] route_to_node_def branch_fn_def)

lemmas node_defs = rag_node_def sql_node_def both_node_def last_message_def
  call_rag_endpoint_def call_sql_endpoint_def invoke_llm_def getitem_def
  sql_handler_def both_handler_def ChatOpenAI_def llm_invoke_def

lemma rag_node_frame:
  "rag_node w s log = (Inr s', log') \<Longrightarrow> messages s' = messages s \<and> next_step s' = next_step s"
  by (auto simp add: node_defs split: if_splits sum.splits option.splits)

lemma sql_node_frame:
  "sql_node w s log = (Inr s', log') \<Longrightarrow> messages s' = messages s \<and> next_step s' = next_step s"
  by (auto simp add: node_defs split: if_splits sum.splits option.splits)

lemma both_node_frame:
  "both_node w s log = (Inr s', log') \<Longrightarrow> messages s' = messages s \<and> next_step s' = next_step s"
  by (auto simp add: node_defs Let_def split: if_splits sum.splits option.splits)

lemma determine_route_frame:
  "determine_route w s log = (Inr s', log') \<Longrightarrow>
     messages s' = messages s \<and> current_response s' = current_response s \<and> error s' = error s"
  by (auto simp add: determine_route_def node_defs split: if_splits sum.splits option.splits)

lemma branch_fn_frame:
  "branch_fn w n s log = (Inr s', log') \<Longrightarrow> messages s' = messages s \<and> next_step s' = next_step s"
  using rag_node_frame sql_node_frame both_node_frame
  by (auto simp add: branch_fn_def split: if_splits)

lemma branch_fn_returns:
  "messages s \<noteq> [] \<Longrightarrow> \<exists>s' log'. branch_fn w n s log = (Inr s', log')"
  by (auto simp add: branch_fn_def node_defs Let_def split: if_splits sum.splits option.splits)

lemma branch_fn_calls:
  "branch_fn w n s log = (r, log') \<Longrightarrow>
     \<exists>l. log' = log @ l \<and> LLMCall (routing_prompt q) \<notin> set l"
  by (auto simp add: branch_fn_def node_defs Let_def prompts_differ
        split: if_splits sum.splits option.splits)

lemma both_node_builds_client_before_reading_answers:
  assumes "rag_service w q = Inr rag_result" and "sql_service w q = Inr sql_result"
    and "chat_openai w = Some e"
  shows "both_node w (initial_state q) log =
           (Inr (both_handler (initial_state q) e), log @ [RagPost q, SqlPost q])"
  using assms
  by (simp add: both_node_def initial_state_def last_message_def call_rag_endpoint_def
        call_sql_endpoint_def ChatOpenAI_def)



lemma run_both_fused:
  assumes "llm_invoke w (routing_prompt q) = Inr d"
    and "upper (strip d) \<noteq> ''RAG''" and "upper (strip d) \<noteq> ''SQL''"
    and "rag_service w q = Inr rag_result" and "rag_result ''answer'' = Some rag_answer"
    and "sql_service w q = Inr sql_result" and "sql_result ''answer'' = Some sql_answer"
    and "llm_invoke w (integration_prompt q sql_answer rag_answer) = Inr text"
  shows "run_workflow w q =
     (Inr ((initial_state q)\<lparr>next_step := upper (strip d), current_response := text\<rparr>),
      [LLMCall (routing_prompt q), RagPost q, SqlPost q,
       LLMCall (integration_prompt q sql_answer rag_answer)],
      [''determine_route'', ''both_node''])"
  using assms(4-) llm_invoke_built [OF llm_invoke_returned [OF assms(1)]]
  by (simp add: run_both_route [OF assms(1-3)] both_node_def initial_state_def
        last_message_def call_rag_endpoint_def call_sql_endpoint_def getitem_def invoke_llm_def
        llm_invoke_returned_client [OF assms(1)])

lemma run_rag_answered:
  assumes "llm_invoke w (routing_prompt q) = Inr d"
    and "upper (strip d) = ''RAG''"
    and "rag_service w q = Inr rag_result" and "rag_result ''answer'' = Some rag_answer"
  shows "run_workflow w q =
     (Inr ((initial_state q)\<lparr>next_step := ''RAG'', current_response := rag_answer\<rparr>),
      [LLMCall (routing_prompt q), RagPost q],
      [''determine_route'', ''rag_node''])"
  using assms(2-)
  by (simp add: run_classified [OF assms(1)] route_to_node_def branch_fn_def rag_node_def
        initial_state_def last_message_def call_rag_endpoint_def getitem_def)


lemma norm_Unknown: "upper (strip ''Unknown'') = ''UNKNOWN''"
  by (simp add: upper_def strip_def isspace_def upper_char_def)

lemma norm_RAG: "upper (strip ''RAG'') = ''RAG''"
  by (simp add: upper_def strip_def isspace_def upper_char_def)

lemma process_question_returns_iff:
  "process_question w q = Inr r \<Longrightarrow>
     \<exists>d s' log'. llm_invoke w (routing_prompt q) = Inr d
       \<and> branch_fn w (route_to_node ((initial_state q)\<lparr>next_step := upper (strip d)\<rparr>))
             ((initial_state q)\<lparr>next_step := upper (strip d)\<rparr>)
             [LLMCall (routing_prompt q)] = (Inr s', log')
       \<and> run_workflow w q =
             (Inr s', log', [''determine_route'',
                route_to_node ((initial_state q)\<lparr>next_step := upper (strip d)\<rparr>)])
       \<and> r = \<lparr>question = q, response = current_response s',
                route_taken = next_step s', error_out = error s'\<rparr>"
proof (cases "llm_invoke w (routing_prompt q)")
  case (Inl e)
  assume "process_question w q = Inr r"
  with Inl show ?thesis
    by (simp add: process_question_def run_classifier_raises)
next
  case (Inr d)
  assume "process_question w q = Inr r"
  with Inr show ?thesis
    by (auto simp add: process_question_def run_classified [OF Inr] split: prod.splits sum.splits)
qed

lemma run_unknown_world:
  "run_workflow (mk_world (llm_says ''Unknown'') rag_up sql_up) ''most rented movies'' =
     (Inr ((initial_state ''most rented movies'')
             \<lparr>next_step := ''UNKNOWN'', current_response := ''Unknown''\<rparr>),
      [LLMCall (routing_prompt ''most rented movies''), RagPost ''most rented movies'',
       SqlPost ''most rented movies'',
       LLMCall (integration_prompt ''most rented movies'' ''Movie A, Movie B''
                  ''A heist in dreams.'')],
      [''determine_route'', ''both_node''])"
proof -
  let ?w = "mk_world (llm_says ''Unknown'') rag_up sql_up"
  let ?q = "''most rented movies''"
  let ?rp = "[''answer'' \<mapsto> ''A heist in dreams.'']"
  let ?sp = "[''sql_query'' \<mapsto> ''SELECT title FROM film LIMIT 5'', ''answer'' \<mapsto> ''Movie A, Movie B'']"
  have h: "llm_invoke ?w (routing_prompt ?q) = Inr ''Unknown''"
    by (simp add: mk_world_def llm_invoke_def ChatOpenAI_def llm_says_def)
  have a: "upper (strip ''Unknown'') \<noteq> ''RAG''" and b: "upper (strip ''Unknown'') \<noteq> ''SQL''"
    by (simp_all add: norm_Unknown)
  have r: "rag_service ?w ?q = Inr ?rp" by (simp add: mk_world_def rag_up_def)
  have s: "sql_service ?w ?q = Inr ?sp" by (simp add: mk_world_def sql_up_def)
  have ra: "?rp ''answer'' = Some ''A heist in dreams.''" by simp
  have sa: "?sp ''answer'' = Some ''Movie A, Movie B''" by simp
  have f: "llm_invoke ?w (integration_prompt ?q ''Movie A, Movie B'' ''A heist in dreams.'')
             = Inr ''Unknown''"
    by (simp add: mk_world_def llm_invoke_def ChatOpenAI_def llm_says_def)
  show ?thesis
    using run_both_fused [OF h a b r ra s sa f] by (simp add: norm_Unknown)
qed

lemma rag_node_response:
  assumes "rag_node w s log = (Inr s', log')" and "error s = None" and "messages s = [HumanMessage q]"
  shows "(error s' \<noteq> None \<longrightarrow> current_response s' \<noteq> [])
       \<and> (error s' = None \<longrightarrow>
            (\<exists>payload. rag_service w q = Inr payload
               \<and> payload ''answer'' = Some (current_response s')))"
  using assms
  by (auto simp add: node_defs split: if_splits sum.splits option.splits)

lemma sql_node_response:
  assumes "sql_node w s log = (Inr s', log')" and "messages s = [HumanMessage q]"
  shows "current_response s' \<noteq> []"
  using assms
  by (auto simp add: node_defs split: if_splits sum.splits option.splits)

lemma both_node_response:
  assumes "both_node w s log = (Inr s', log')" and "error s = None" and "messages s = [HumanMessage q]"
  shows "(error s' \<noteq> None \<longrightarrow> current_response s' \<noteq> [])
       \<and> (error s' = None \<longrightarrow>
            (\<exists>rag_result rag_answer sql_result sql_answer.
               rag_service w q = Inr rag_result \<and> rag_result ''answer'' = Some rag_answer
             \<and> sql_service w q = Inr sql_result \<and> sql_result ''answer'' = Some sql_answer
             \<and> llm_invoke w (integration_prompt q sql_answer rag_answer)
                 = Inr (current_response s')))"
  using assms
  by (auto simp add: node_defs Let_def split: if_splits sum.splits option.splits)

lemma run_sql_raises:
  assumes "llm_invoke w (routing_prompt q) = Inr d"
    and "upper (strip d) = ''SQL''"
    and "sql_service w q = Inl e"
  shows "run_workflow w q =
     (Inr (sql_handler ((initial_state q)\<lparr>next_step := ''SQL''\<rparr>) e),
      [LLMCall (routing_prompt q), SqlPost q],
      [''determine_route'', ''sql_node''])"
  using assms(2-)
  by (simp add: run_classified [OF assms(1)] route_to_node_def branch_fn_def sql_node_def
        initial_state_def last_message_def call_sql_endpoint_def)

lemma norm_sql_padded: "upper (strip '' sql\<newline>'') = ''SQL''"
  by (simp add: upper_def strip_def isspace_def upper_char_def)

lemma graph_edges:
  "edges (create_workflow w) =
     [(''rag_node'', END), (''sql_node'', END), (''both_node'', END)]"
  by (simp add: create_workflow_def add_edge_def add_conditional_edges_def set_entry_point_def
        add_node_def new_StateGraph_def)

lemma graph_branches:
  "map (\<lambda>(source, path, path_map). (source, path_map)) (branches (create_workflow w)) =
     [(''determine_route'',
       [(''rag_node'', ''rag_node''), (''sql_node'', ''sql_node''), (''both_node'', ''both_node'')])]"
  by (simp add: create_workflow_def add_edge_def add_conditional_edges_def set_entry_point_def
        add_node_def new_StateGraph_def)

section \<open>Claims\<close>

subsection \<open>C3: a failing classifier call\<close>

text \<open>
  C3, as the code has it. \<^verbatim>\<open>determine_route\<close> has no handler, and neither has
  \<^verbatim>\<open>process_question\<close>: when the generation call used for routing raises (building
  the client or the call itself), the run stops after the classifier node, no branch
  node runs, no endpoint is called, and the exception leaves \<^verbatim>\<open>process_question\<close>;
  no result dictionary is returned. The one call made is the routing call, and not even
  that when the client could not be built.
\<close>

theorem classifier_failure_escapes:
  assumes "llm_invoke w (routing_prompt q) = Inl e"
  shows "process_question w q = Inl e
       \<and> nodes_run w q = [''determine_route'']
       \<and> calls_made w q =
           (if chat_openai w = None then [LLMCall (routing_prompt q)] else [])"
  by (simp add: process_question_def nodes_run_def calls_made_def run_classifier_raises [OF assms])

theorem classifier_failure_escapes_witness:
  "llm_invoke (mk_world llm_down rag_up sql_up) (routing_prompt ''most rented movies'')
     = Inl (Raised ''Rate limit exceeded'')
   \<and> process_question (mk_world llm_down rag_up sql_up) ''most rented movies''
     = Inl (Raised ''Rate limit exceeded'')
   \<and> nodes_run (mk_world llm_down rag_up sql_up) ''most rented movies'' = [''determine_route'']
   \<and> calls_made (mk_world llm_down rag_up sql_up) ''most rented movies''
     = [LLMCall (routing_prompt ''most rented movies'')]
   \<and> llm_invoke (without_api_key (mk_world (llm_says ''SQL'') rag_up sql_up))
       (routing_prompt ''most rented movies'')
     = Inl (Raised ''OPENAI_API_KEY is not set'')
   \<and> process_question (without_api_key (mk_world (llm_says ''SQL'') rag_up sql_up))
       ''most rented movies''
     = Inl (Raised ''OPENAI_API_KEY is not set'')
   \<and> calls_made (without_api_key (mk_world (llm_says ''SQL'') rag_up sql_up))
       ''most rented movies'' = []"
proof -
  let ?w = "mk_world llm_down rag_up sql_up"
  let ?v = "without_api_key (mk_world (llm_says ''SQL'') rag_up sql_up)"
  have h: "llm_invoke ?w (routing_prompt ''most rented movies'')
     = Inl (Raised ''Rate limit exceeded'')"
    by (simp add: llm_invoke_mk_world llm_down_def)
  have b: "chat_openai ?w = None"
    by (simp add: mk_world_def)
  have k: "llm_invoke ?v (routing_prompt ''most rented movies'')
     = Inl (Raised ''OPENAI_API_KEY is not set'')"
    by (simp add: llm_invoke_def ChatOpenAI_def without_api_key_def)
  have c: "chat_openai ?v \<noteq> None"
    by (simp add: without_api_key_def)
  show ?thesis
    using h b classifier_failure_escapes [OF h] k c classifier_failure_escapes [OF k]
    by simp
qed

text \<open>
  C3 as the specification states it (the failure comes back as a populated error field
  next to a response text, not as an exception) fails when the text-generation service
  is down: the call of \<^verbatim>\<open>process_question\<close> ends in the exception.
\<close>

theorem classifier_failure_no_result_counterexample:
  "process_question (mk_world llm_down rag_up sql_up) ''most rented movies''
     = Inl (Raised ''Rate limit exceeded'')"
proof -
  have h: "llm_invoke (mk_world llm_down rag_up sql_up) (routing_prompt ''most rented movies'')
     = Inl (Raised ''Rate limit exceeded'')"
    by (simp add: mk_world_def llm_invoke_def ChatOpenAI_def llm_down_def)
  show ?thesis
    by (simp add: process_question_def run_classifier_raises [OF h])
qed

subsection \<open>C5: a failing client on a single route\<close>

text \<open>
  C5. When the route is the statistics route and the statistics client call raises, or
  the route is the retrieval route and the retrieval client call raises,
  \<^verbatim>\<open>process_question\<close> returns normally: the response is the inline description
  \<^verbatim>\<open>Error calling SQL endpoint: ...\<close> (respectively \<^verbatim>\<open>RAG\<close>) of the failure, and
  the error field is the text of the exception caught.
\<close>

theorem single_route_failure_is_reported:
  assumes "llm_invoke w (routing_prompt q) = Inr d"
  shows "(upper (strip d) = ''SQL'' \<and> sql_service w q = Inl e \<longrightarrow>
            process_question w q =
              Inr \<lparr>question = q,
                   response = ''Error calling SQL endpoint: '' @ str_exn e,
                   route_taken = ''SQL'',
                   error_out = Some (str_exn e)\<rparr>)
       \<and> (upper (strip d) = ''RAG'' \<and> rag_service w q = Inl e \<longrightarrow>
            process_question w q =
              Inr \<lparr>question = q,
                   response = ''Error calling RAG endpoint: '' @ str_exn e,
                   route_taken = ''RAG'',
                   error_out = Some (str_exn e)\<rparr>)"
  by (simp add: process_question_def run_classified [OF assms] route_to_node_def branch_fn_def
        sql_node_def rag_node_def initial_state_def last_message_def
        call_sql_endpoint_def call_rag_endpoint_def sql_handler_def)

theorem single_route_failure_is_reported_witness:
  "process_question (mk_world (llm_says '' sql\<newline>'') rag_up service_down)
       ''most rented movies'' =
     Inr \<lparr>question = ''most rented movies'',
          response = ''Error calling SQL endpoint: Connection refused'',
          route_taken = ''SQL'',
          error_out = Some ''Connection refused''\<rparr>
   \<and> process_question (mk_world (llm_says ''Rag'') service_down sql_up)
       ''movies about time travel'' =
     Inr \<lparr>question = ''movies about time travel'',
          response = ''Error calling RAG endpoint: Connection refused'',
          route_taken = ''RAG'',
          error_out = Some ''Connection refused''\<rparr>"
proof -
  have n1: "upper (strip '' sql\<newline>'') = ''SQL''" and n2: "upper (strip ''Rag'') = ''RAG''"
    by (simp_all add: upper_def strip_def isspace_def upper_char_def)
  have h1: "llm_invoke (mk_world (llm_says '' sql\<newline>'') rag_up service_down)
              (routing_prompt ''most rented movies'') = Inr '' sql\<newline>''"
    by (simp add: mk_world_def llm_invoke_def ChatOpenAI_def llm_says_def)
  have h2: "llm_invoke (mk_world (llm_says ''Rag'') service_down sql_up)
              (routing_prompt ''movies about time travel'') = Inr ''Rag''"
    by (simp add: mk_world_def llm_invoke_def ChatOpenAI_def llm_says_def)
  have s1: "sql_service (mk_world (llm_says '' sql\<newline>'') rag_up service_down)
              ''most rented movies'' = Inl (Raised ''Connection refused'')"
    by (simp add: mk_world_def service_down_def)
  have s2: "rag_service (mk_world (llm_says ''Rag'') service_down sql_up)
              ''movies about time travel'' = Inl (Raised ''Connection refused'')"
    by (simp add: mk_world_def service_down_def)
  show ?thesis
    using single_route_failure_is_reported [OF h1, of "Raised ''Connection refused''"]
          single_route_failure_is_reported [OF h2, of "Raised ''Connection refused''"]
          n1 n2 s1 s2
    by simp
qed

subsection \<open>C8: the generated query in front of the answer\<close>

text \<open>
  C8. When the statistics route alone is taken and the statistics client returns a
  payload with its generated query and its answer, the response is the generated query,
  labelled, followed on a new line by the answer, labelled.
\<close>

theorem statistics_success_prefixes_query:
  assumes "llm_invoke w (routing_prompt q) = Inr d"
    and "upper (strip d) = ''SQL''"
    and "sql_service w q = Inr payload"
    and "payload ''sql_query'' = Some generated_query"
    and "payload ''answer'' = Some answer"
  shows "process_question w q =
           Inr \<lparr>question = q,
                response = ''SQL Query: '' @ generated_query @ ''\<newline>Answer: '' @ answer,
                route_taken = ''SQL'',
                error_out = None\<rparr>"
  using assms(2-)
  by (simp add: process_question_def run_classified [OF assms(1)] route_to_node_def branch_fn_def
        sql_node_def initial_state_def last_message_def call_sql_endpoint_def getitem_def)

theorem statistics_success_prefixes_query_witness:
  "process_question (mk_world (llm_says ''SQL'') rag_up sql_up)
       ''What are the top 5 most rented comedy movies?'' =
     Inr \<lparr>question = ''What are the top 5 most rented comedy movies?'',
          response = ''SQL Query: SELECT title FROM film LIMIT 5\<newline>Answer: Movie A, Movie B'',
          route_taken = ''SQL'',
          error_out = None\<rparr>"
proof -
  let ?w = "mk_world (llm_says ''SQL'') rag_up sql_up"
  let ?q = "''What are the top 5 most rented comedy movies?''"
  let ?p = "[''sql_query'' \<mapsto> ''SELECT title FROM film LIMIT 5'', ''answer'' \<mapsto> ''Movie A, Movie B'']"
  have h: "llm_invoke ?w (routing_prompt ?q) = Inr ''SQL''"
    by (simp add: mk_world_def llm_invoke_def ChatOpenAI_def llm_says_def)
  have n: "upper (strip ''SQL'') = ''SQL''"
    by (simp add: upper_def strip_def isspace_def upper_char_def)
  have s: "sql_service ?w ?q = Inr ?p"
    by (simp add: mk_world_def sql_up_def)
  have k1: "?p ''sql_query'' = Some ''SELECT title FROM film LIMIT 5''" by simp
  have k2: "?p ''answer'' = Some ''Movie A, Movie B''" by simp
  show ?thesis
    using statistics_success_prefixes_query [OF h n s k1 k2] by simp
qed

subsection \<open>C6: an unrecognised decision text\<close>

text \<open>
  C6. Every decision text of the classifier that, trimmed and upper-cased, is neither
  \<^verbatim>\<open>RAG\<close> nor \<^verbatim>\<open>SQL\<close> (an unparseable text such as \<^verbatim>\<open>UNKNOWN\<close> included)
  makes the router return the name of the node for both sources, and the run of the
  workflow executes that node after the classifier.
\<close>

theorem unrecognised_decision_runs_both_branch:
  assumes "upper (strip d) \<noteq> ''RAG''" and "upper (strip d) \<noteq> ''SQL''"
  shows "route_to_node (state\<lparr>next_step := upper (strip d)\<rparr>) = ''both_node''
       \<and> (llm_invoke w (routing_prompt q) = Inr d \<longrightarrow>
            nodes_run w q = [''determine_route'', ''both_node''])"
proof -
  have "nodes_run w q = [''determine_route'', ''both_node'']"
    if h: "llm_invoke w (routing_prompt q) = Inr d"
    by (simp add: nodes_run_def run_both_route [OF h assms] split: prod.splits)
  with assms show ?thesis
    by (simp add: route_to_node_def)
qed

theorem unrecognised_decision_runs_both_branch_witness:
  "upper (strip ''Unknown'') = ''UNKNOWN''
   \<and> route_to_node ((initial_state ''most rented movies'')\<lparr>next_step := ''UNKNOWN''\<rparr>) = ''both_node''
   \<and> nodes_run (mk_world (llm_says ''Unknown'') rag_up sql_up) ''most rented movies''
       = [''determine_route'', ''both_node'']"
proof -
  have n: "upper (strip ''Unknown'') = ''UNKNOWN''"
    by (simp add: upper_def strip_def isspace_def upper_char_def)
  have h: "llm_invoke (mk_world (llm_says ''Unknown'') rag_up sql_up)
             (routing_prompt ''most rented movies'') = Inr ''Unknown''"
    by (simp add: mk_world_def llm_invoke_def ChatOpenAI_def llm_says_def)
  have a: "upper (strip ''Unknown'') \<noteq> ''RAG''" and b: "upper (strip ''Unknown'') \<noteq> ''SQL''"
    by (simp_all add: n)
  show ?thesis
    using unrecognised_decision_runs_both_branch [OF a b,
            of "initial_state ''most rented movies''"
               "mk_world (llm_says ''Unknown'') rag_up sql_up" "''most rented movies''"]
          n h
    by simp
qed

subsection \<open>C7: a failing fusion call\<close>

text \<open>
  C7. On the route for both sources, when both clients answered and the generation call
  that integrates the two answers raises, \<^verbatim>\<open>process_question\<close> returns with the
  error field set to the text of the exception and with the response
  \<^verbatim>\<open>Error processing combined query: ...\<close>; the response is built from the exception
  alone, not from the two source answers.
\<close>

theorem fusion_failure_is_terminal:
  assumes "llm_invoke w (routing_prompt q) = Inr d"
    and "upper (strip d) \<noteq> ''RAG''" and "upper (strip d) \<noteq> ''SQL''"
    and "rag_service w q = Inr rag_result" and "rag_result ''answer'' = Some rag_answer"
    and "sql_service w q = Inr sql_result" and "sql_result ''answer'' = Some sql_answer"
    and "llm_invoke w (integration_prompt q sql_answer rag_answer) = Inl e"
  shows "process_question w q =
           Inr \<lparr>question = q,
                response = ''Error processing combined query: '' @ str_exn e,
                route_taken = upper (strip d),
                error_out = Some (str_exn e)\<rparr>"
  using assms(4-) llm_invoke_built [OF llm_invoke_returned [OF assms(1)]]
  by (simp add: process_question_def run_both_route [OF assms(1-3)] both_node_def
        initial_state_def last_message_def call_rag_endpoint_def call_sql_endpoint_def
        getitem_def invoke_llm_def both_handler_def llm_invoke_returned_client [OF assms(1)])

theorem fusion_failure_is_terminal_witness:
  "process_question (mk_world llm_both_then_down rag_up sql_up)
       ''horror movies with high rental counts and their plots'' =
     Inr \<lparr>question = ''horror movies with high rental counts and their plots'',
          response = ''Error processing combined query: Request timed out'',
          route_taken = ''BOTH'',
          error_out = Some ''Request timed out''\<rparr>"
proof -
  let ?w = "mk_world llm_both_then_down rag_up sql_up"
  let ?q = "''horror movies with high rental counts and their plots''"
  let ?rp = "[''answer'' \<mapsto> ''A heist in dreams.'']"
  let ?sp = "[''sql_query'' \<mapsto> ''SELECT title FROM film LIMIT 5'', ''answer'' \<mapsto> ''Movie A, Movie B'']"
  have n: "upper (strip ''BOTH'') = ''BOTH''"
    by (simp add: upper_def strip_def isspace_def upper_char_def)
  have h: "llm_invoke ?w (routing_prompt ?q) = Inr ''BOTH''"
    by (simp add: mk_world_def llm_invoke_def ChatOpenAI_def llm_both_then_down_routing)
  have a: "upper (strip ''BOTH'') \<noteq> ''RAG''" and b: "upper (strip ''BOTH'') \<noteq> ''SQL''"
    by (simp_all add: n)
  have r: "rag_service ?w ?q = Inr ?rp" by (simp add: mk_world_def rag_up_def)
  have s: "sql_service ?w ?q = Inr ?sp" by (simp add: mk_world_def sql_up_def)
  have ra: "?rp ''answer'' = Some ''A heist in dreams.''" by simp
  have sa: "?sp ''answer'' = Some ''Movie A, Movie B''" by simp
  have f: "llm_invoke ?w (integration_prompt ?q ''Movie A, Movie B'' ''A heist in dreams.'')
             = Inl (Raised ''Request timed out'')"
    by (simp add: mk_world_def llm_invoke_def ChatOpenAI_def llm_both_then_down_integration)
  show ?thesis
    using fusion_failure_is_terminal [OF h a b r ra s sa f] n by simp
qed

subsection \<open>C1: a failing client on the route for both sources\<close>




subsection \<open>C2: the reported route\<close>

text \<open>
  C2, as the code has it. Whenever \<^verbatim>\<open>process_question\<close> returns a result, its
  \<^verbatim>\<open>route_taken\<close> is the classifier's decision text, trimmed and upper-cased, as it
  is: no step maps it into the three route values. The branch that ran is the one the
  router picks for that text, so the text is \<^verbatim>\<open>RAG\<close> exactly on the retrieval
  branch and \<^verbatim>\<open>SQL\<close> exactly on the statistics branch, and on the branch for both
  sources it is whatever else the classifier produced.
\<close>

theorem route_taken_is_normalised_decision_text:
  assumes "process_question w q = Inr r"
  shows "(\<exists>d. llm_invoke w (routing_prompt q) = Inr d \<and> route_taken r = upper (strip d))
       \<and> nodes_run w q =
           [''determine_route'', route_to_node ((initial_state q)\<lparr>next_step := route_taken r\<rparr>)]"
proof -
  from process_question_returns_iff [OF assms] obtain d s' log' where
    d: "llm_invoke w (routing_prompt q) = Inr d"
    and b: "branch_fn w (route_to_node ((initial_state q)\<lparr>next_step := upper (strip d)\<rparr>))
             ((initial_state q)\<lparr>next_step := upper (strip d)\<rparr>)
             [LLMCall (routing_prompt q)] = (Inr s', log')"
    and run: "run_workflow w q =
             (Inr s', log', [''determine_route'',
                route_to_node ((initial_state q)\<lparr>next_step := upper (strip d)\<rparr>)])"
    and r: "r = \<lparr>question = q, response = current_response s',
                route_taken = next_step s', error_out = error s'\<rparr>"
    by blast
  from branch_fn_frame [OF b] have "next_step s' = upper (strip d)"
    by simp
  with d run r show ?thesis
    by (auto simp add: nodes_run_def)
qed

theorem route_taken_is_normalised_decision_text_witness:
  "process_question (mk_world (llm_says ''Unknown'') rag_up sql_up) ''most rented movies'' =
     Inr \<lparr>question = ''most rented movies'', response = ''Unknown'',
          route_taken = ''UNKNOWN'', error_out = None\<rparr>
   \<and> (\<exists>d. llm_invoke (mk_world (llm_says ''Unknown'') rag_up sql_up)
              (routing_prompt ''most rented movies'') = Inr d
          \<and> ''UNKNOWN'' = upper (strip d))
   \<and> nodes_run (mk_world (llm_says ''Unknown'') rag_up sql_up) ''most rented movies''
       = [''determine_route'', ''both_node'']"
proof -
  have p: "process_question (mk_world (llm_says ''Unknown'') rag_up sql_up) ''most rented movies'' =
     Inr \<lparr>question = ''most rented movies'', response = ''Unknown'',
          route_taken = ''UNKNOWN'', error_out = None\<rparr>"
    by (simp add: process_question_def run_unknown_world initial_state_def)
  show ?thesis
    using p route_taken_is_normalised_decision_text [OF p]
    by (simp add: route_to_node_def)
qed

text \<open>
  C2 as the specification states it (the reported route is always one of
  \<^verbatim>\<open>RAG\<close>, \<^verbatim>\<open>SQL\<close>, \<^verbatim>\<open>BOTH\<close>) fails for a classifier that answers
  \<^verbatim>\<open>Unknown\<close>: the result reports the route \<^verbatim>\<open>UNKNOWN\<close>.
\<close>

theorem route_taken_outside_enumeration_counterexample:
  "process_question (mk_world (llm_says ''Unknown'') rag_up sql_up) ''most rented movies'' =
     Inr \<lparr>question = ''most rented movies'', response = ''Unknown'',
          route_taken = ''UNKNOWN'', error_out = None\<rparr>
   \<and> ''UNKNOWN'' \<noteq> ''RAG'' \<and> ''UNKNOWN'' \<noteq> ''SQL'' \<and> ''UNKNOWN'' \<noteq> ''BOTH''"
  by (simp add: process_question_def run_unknown_world initial_state_def)

subsection \<open>C4: an empty response\<close>

text \<open>
  C4, as the code has it. Whenever \<^verbatim>\<open>process_question\<close> returns a result, the
  response is non-empty if a downstream call failed (it is then a description starting
  with \<^verbatim>\<open>Error\<close>) and if the route is the statistics route (it then starts with the
  label of the generated query). On a retrieval route without failure the response is the
  retrieval answer as received, and on the route for both sources without failure it is
  the generated integration text as received; nothing checks that either is non-empty.
\<close>

theorem response_nonempty_on_failure_or_statistics:
  assumes "process_question w q = Inr r"
  shows "(error_out r \<noteq> None \<longrightarrow> response r \<noteq> [])
       \<and> (route_taken r = ''SQL'' \<longrightarrow> response r \<noteq> [])
       \<and> (error_out r = None \<and> route_taken r = ''RAG'' \<longrightarrow>
            (\<exists>payload. rag_service w q = Inr payload \<and> payload ''answer'' = Some (response r)))
       \<and> (error_out r = None \<and> route_taken r \<noteq> ''RAG'' \<and> route_taken r \<noteq> ''SQL'' \<longrightarrow>
            (\<exists>rag_result rag_answer sql_result sql_answer.
               rag_service w q = Inr rag_result \<and> rag_result ''answer'' = Some rag_answer
             \<and> sql_service w q = Inr sql_result \<and> sql_result ''answer'' = Some sql_answer
             \<and> llm_invoke w (integration_prompt q sql_answer rag_answer) = Inr (response r)))"
proof -
  from process_question_returns_iff [OF assms] obtain d s' log' where
    b: "branch_fn w (route_to_node ((initial_state q)\<lparr>next_step := upper (strip d)\<rparr>))
             ((initial_state q)\<lparr>next_step := upper (strip d)\<rparr>)
             [LLMCall (routing_prompt q)] = (Inr s', log')"
    and r: "r = \<lparr>question = q, response = current_response s',
                route_taken = next_step s', error_out = error s'\<rparr>"
    by blast
  let ?s = "(initial_state q)\<lparr>next_step := upper (strip d)\<rparr>"
  have e: "error ?s = None" and m: "messages ?s = [HumanMessage q]"
    by (simp_all add: initial_state_def)
  from branch_fn_frame [OF b] have n: "next_step s' = upper (strip d)"
    by simp
  show ?thesis
  proof (cases "upper (strip d) = ''RAG''")
    case True
    then have "rag_node w ?s [LLMCall (routing_prompt q)] = (Inr s', log')"
      using b by (simp add: route_to_node_def branch_fn_def)
    from rag_node_response [OF this e m] True n r show ?thesis
      by simp
  next
    case notrag: False
    show ?thesis
    proof (cases "upper (strip d) = ''SQL''")
      case True
      then have "sql_node w ?s [LLMCall (routing_prompt q)] = (Inr s', log')"
        using b by (simp add: route_to_node_def branch_fn_def)
      from sql_node_response [OF this m] True n r show ?thesis
        by simp
    next
      case False
      with notrag have "both_node w ?s [LLMCall (routing_prompt q)] = (Inr s', log')"
        using b by (simp add: route_to_node_def branch_fn_def)
      from both_node_response [OF this e m] False notrag n r show ?thesis
        by simp
    qed
  qed
qed

theorem response_nonempty_on_failure_or_statistics_witness:
  "process_question (mk_world (llm_says '' sql\<newline>'') rag_up service_down) ''most rented movies''
     = Inr \<lparr>question = ''most rented movies'',
            response = ''Error calling SQL endpoint: Connection refused'',
            route_taken = ''SQL'', error_out = Some ''Connection refused''\<rparr>
   \<and> ''Error calling SQL endpoint: Connection refused'' \<noteq> []
   \<and> process_question (mk_world (llm_says ''RAG'') rag_up sql_up) ''movies about dreams''
     = Inr \<lparr>question = ''movies about dreams'', response = ''A heist in dreams.'',
            route_taken = ''RAG'', error_out = None\<rparr>
   \<and> (\<exists>payload. rag_service (mk_world (llm_says ''RAG'') rag_up sql_up) ''movies about dreams''
                    = Inr payload
          \<and> payload ''answer'' = Some ''A heist in dreams.'')
   \<and> process_question (mk_world (llm_says ''Unknown'') rag_up sql_up) ''most rented movies''
     = Inr \<lparr>question = ''most rented movies'', response = ''Unknown'',
            route_taken = ''UNKNOWN'', error_out = None\<rparr>
   \<and> (\<exists>sql_answer rag_answer.
          llm_invoke (mk_world (llm_says ''Unknown'') rag_up sql_up)
            (integration_prompt ''most rented movies'' sql_answer rag_answer) = Inr ''Unknown'')"
proof -
  let ?wa = "mk_world (llm_says '' sql\<newline>'') rag_up service_down"
  let ?wb = "mk_world (llm_says ''RAG'') rag_up sql_up"
  let ?wc = "mk_world (llm_says ''Unknown'') rag_up sql_up"
  have ha: "llm_invoke ?wa (routing_prompt ''most rented movies'') = Inr '' sql\<newline>''"
    by (simp add: mk_world_def llm_invoke_def ChatOpenAI_def llm_says_def)
  have sa: "sql_service ?wa ''most rented movies'' = Inl (Raised ''Connection refused'')"
    by (simp add: mk_world_def service_down_def)
  have pa: "process_question ?wa ''most rented movies''
     = Inr \<lparr>question = ''most rented movies'',
            response = ''Error calling SQL endpoint: Connection refused'',
            route_taken = ''SQL'', error_out = Some ''Connection refused''\<rparr>"
    by (simp add: process_question_def run_sql_raises [OF ha norm_sql_padded sa]
          sql_handler_def initial_state_def)
  have hb: "llm_invoke ?wb (routing_prompt ''movies about dreams'') = Inr ''RAG''"
    by (simp add: mk_world_def llm_invoke_def ChatOpenAI_def llm_says_def)
  have rb: "rag_service ?wb ''movies about dreams'' = Inr [''answer'' \<mapsto> ''A heist in dreams.'']"
    by (simp add: mk_world_def rag_up_def)
  have kb: "[''answer'' \<mapsto> ''A heist in dreams.''] ''answer'' = Some ''A heist in dreams.''"
    by simp
  have pb: "process_question ?wb ''movies about dreams''
     = Inr \<lparr>question = ''movies about dreams'', response = ''A heist in dreams.'',
            route_taken = ''RAG'', error_out = None\<rparr>"
    by (simp add: process_question_def run_rag_answered [OF hb norm_RAG rb kb] initial_state_def)
  have pc: "process_question ?wc ''most rented movies''
     = Inr \<lparr>question = ''most rented movies'', response = ''Unknown'',
            route_taken = ''UNKNOWN'', error_out = None\<rparr>"
    by (simp add: process_question_def run_unknown_world initial_state_def)
  from response_nonempty_on_failure_or_statistics [OF pa]
  have ca: "''Error calling SQL endpoint: Connection refused'' \<noteq> []"
    by simp
  from response_nonempty_on_failure_or_statistics [OF pb]
  have cb: "\<exists>payload. rag_service ?wb ''movies about dreams'' = Inr payload
          \<and> payload ''answer'' = Some ''A heist in dreams.''"
    by simp
  from response_nonempty_on_failure_or_statistics [OF pc]
  have cc: "\<exists>sql_answer rag_answer.
          llm_invoke ?wc (integration_prompt ''most rented movies'' sql_answer rag_answer)
            = Inr ''Unknown''"
    by simp blast
  from pa ca pb cb pc cc show ?thesis
    by blast
qed

text \<open>
  C4 as the specification states it (the response is never empty) fails for a retrieval
  service whose payload carries an empty answer: the result has an empty response and no
  error.
\<close>

theorem empty_retrieval_answer_counterexample:
  "process_question (mk_world (llm_says ''RAG'') rag_empty_answer sql_up) ''movies about dreams''
     = Inr \<lparr>question = ''movies about dreams'', response = [],
            route_taken = ''RAG'', error_out = None\<rparr>"
proof -
  let ?w = "mk_world (llm_says ''RAG'') rag_empty_answer sql_up"
  have h: "llm_invoke ?w (routing_prompt ''movies about dreams'') = Inr ''RAG''"
    by (simp add: mk_world_def llm_invoke_def ChatOpenAI_def llm_says_def)
  have r: "rag_service ?w ''movies about dreams'' = Inr [''answer'' \<mapsto> []]"
    by (simp add: mk_world_def rag_empty_answer_def)
  have k: "[''answer'' \<mapsto> []] ''answer'' = Some []"
    by simp
  show ?thesis
    by (simp add: process_question_def run_rag_answered [OF h norm_RAG r k] initial_state_def)
qed

subsection \<open>C9: one classification, one branch, no loop\<close>

text \<open>
  C9, as the code has it. Every call of \<^verbatim>\<open>process_question\<close> runs the classifier
  node exactly once and calls the text-generation service with the routing prompt at
  most once. When the classifier's generation call returns, exactly one of the three
  branch nodes runs after it, once (the one the router picks for the decision text), the
  routing prompt has been sent exactly once, and the end state is reached:
  \<^verbatim>\<open>process_question\<close> returns. When that call raises, no branch node runs and the
  end state is not reached: the exception leaves \<^verbatim>\<open>process_question\<close>. The graph has
  no way back: its only conditional edge leaves the classifier for the three branch
  nodes, and the only edge leaving a branch node leads to the end.
\<close>

theorem one_classification_then_at_most_one_branch:
  "count_list (nodes_run w q) ''determine_route'' = 1
   \<and> count_list (calls_made w q) (LLMCall (routing_prompt q)) \<le> 1
   \<and> (\<forall>d. llm_invoke w (routing_prompt q) = Inr d \<longrightarrow>
          (\<exists>r. process_question w q = Inr r)
        \<and> nodes_run w q =
            [''determine_route'',
             route_to_node ((initial_state q)\<lparr>next_step := upper (strip d)\<rparr>)]
        \<and> (nodes_run w q = [''determine_route'', ''rag_node'']
           \<or> nodes_run w q = [''determine_route'', ''sql_node'']
           \<or> nodes_run w q = [''determine_route'', ''both_node''])
        \<and> count_list (calls_made w q) (LLMCall (routing_prompt q)) = 1)
   \<and> (\<forall>e. llm_invoke w (routing_prompt q) = Inl e \<longrightarrow>
          process_question w q = Inl e \<and> nodes_run w q = [''determine_route''])
   \<and> entry_point (create_workflow w) = Some ''determine_route''
   \<and> map (\<lambda>(source, path, path_map). (source, path_map)) (branches (create_workflow w)) =
       [(''determine_route'',
         [(''rag_node'', ''rag_node''), (''sql_node'', ''sql_node''), (''both_node'', ''both_node'')])]
   \<and> edges (create_workflow w) =
       [(''rag_node'', END), (''sql_node'', END), (''both_node'', END)]"
proof (cases "llm_invoke w (routing_prompt q)")
  case (Inl e)
  show ?thesis
    by (simp add: nodes_run_def calls_made_def process_question_def Inl
          run_classifier_raises [OF Inl] graph_entry graph_branches graph_edges)
next
  case (Inr d)
  let ?s = "(initial_state q)\<lparr>next_step := upper (strip d)\<rparr>"
  have "messages ?s \<noteq> []"
    by (simp add: initial_state_def)
  from branch_fn_returns [OF this] obtain s' log' where
    b: "branch_fn w (route_to_node ?s) ?s [LLMCall (routing_prompt q)] = (Inr s', log')"
    by blast
  from branch_fn_calls [OF b] obtain l where
    l: "log' = [LLMCall (routing_prompt q)] @ l" "LLMCall (routing_prompt q) \<notin> set l"
    by blast
  have run: "run_workflow w q = (Inr s', log', [''determine_route'', route_to_node ?s])"
    by (simp add: run_classified [OF Inr] b)
  have c: "count_list l (LLMCall (routing_prompt q)) = 0"
    using l(2) by (simp add: count_list_0_iff)
  have n: "route_to_node ?s = ''rag_node'' \<or> route_to_node ?s = ''sql_node''
           \<or> route_to_node ?s = ''both_node''"
    by (rule route_to_node_cases)
  have n1: "count_list (nodes_run w q) ''determine_route'' = 1"
    using n by (auto simp add: nodes_run_def run)
  have n2: "count_list (calls_made w q) (LLMCall (routing_prompt q)) = 1"
    by (simp add: calls_made_def run l(1) c)
  have n3: "\<exists>r. process_question w q = Inr r"
    by (simp add: process_question_def run)
  have n4: "nodes_run w q = [''determine_route'', route_to_node ?s]"
    by (simp add: nodes_run_def run)
  have n5: "nodes_run w q = [''determine_route'', ''rag_node'']
           \<or> nodes_run w q = [''determine_route'', ''sql_node'']
           \<or> nodes_run w q = [''determine_route'', ''both_node'']"
    using n n4 by auto
  from n1 n2 n3 n4 n5 show ?thesis
    by (simp add: Inr graph_entry graph_branches graph_edges)
qed

theorem one_classification_then_at_most_one_branch_witness:
  "llm_invoke (mk_world (llm_says ''Unknown'') rag_up sql_up)
       (routing_prompt ''most rented movies'') = Inr ''Unknown''
   \<and> nodes_run (mk_world (llm_says ''Unknown'') rag_up sql_up) ''most rented movies''
       = [''determine_route'', ''both_node'']
   \<and> count_list (calls_made (mk_world (llm_says ''Unknown'') rag_up sql_up) ''most rented movies'')
       (LLMCall (routing_prompt ''most rented movies'')) = 1
   \<and> (\<exists>r. process_question (mk_world (llm_says ''Unknown'') rag_up sql_up)
              ''most rented movies'' = Inr r)
   \<and> llm_invoke (mk_world llm_down rag_up sql_up) (routing_prompt ''most rented movies'')
       = Inl (Raised ''Rate limit exceeded'')
   \<and> process_question (mk_world llm_down rag_up sql_up) ''most rented movies''
       = Inl (Raised ''Rate limit exceeded'')
   \<and> nodes_run (mk_world llm_down rag_up sql_up) ''most rented movies''
       = [''determine_route'']
   \<and> count_list (nodes_run (mk_world llm_down rag_up sql_up) ''most rented movies'')
       ''determine_route'' = 1"
proof -
  let ?u = "mk_world (llm_says ''Unknown'') rag_up sql_up"
  let ?v = "mk_world llm_down rag_up sql_up"
  let ?q = "''most rented movies''"
  have hu: "llm_invoke ?u (routing_prompt ?q) = Inr ''Unknown''"
    by (simp add: llm_invoke_mk_world llm_says_def)
  have hv: "llm_invoke ?v (routing_prompt ?q) = Inl (Raised ''Rate limit exceeded'')"
    by (simp add: llm_invoke_mk_world llm_down_def)
  from one_classification_then_at_most_one_branch [of ?u ?q] hu
  have u: "(\<exists>r. process_question ?u ?q = Inr r)
     \<and> nodes_run ?u ?q =
         [''determine_route'',
          route_to_node ((initial_state ?q)\<lparr>next_step := upper (strip ''Unknown'')\<rparr>)]
     \<and> count_list (calls_made ?u ?q) (LLMCall (routing_prompt ?q)) = 1"
    by blast
  from one_classification_then_at_most_one_branch [of ?v ?q] hv
  have v: "process_question ?v ?q = Inl (Raised ''Rate limit exceeded'')
     \<and> nodes_run ?v ?q = [''determine_route'']
     \<and> count_list (nodes_run ?v ?q) ''determine_route'' = 1"
    by blast
  from u have u': "nodes_run ?u ?q = [''determine_route'', ''both_node'']"
    by (simp add: norm_Unknown route_to_node_def)
  from hu hv u u' v show ?thesis
    by blast
qed

text \<open>
  C9 as the specification states it (every call runs the classifier and then exactly one
  of the three branches) fails when the text-generation service is down: the classifier
  node is the only node that runs, no branch runs, and the call ends in the exception.
\<close>

theorem classifier_down_runs_no_branch_counterexample:
  "nodes_run (mk_world llm_down rag_up sql_up) ''most rented movies'' = [''determine_route'']
   \<and> calls_made (mk_world llm_down rag_up sql_up) ''most rented movies''
       = [LLMCall (routing_prompt ''most rented movies'')]
   \<and> process_question (mk_world llm_down rag_up sql_up) ''most rented movies''
       = Inl (Raised ''Rate limit exceeded'')"
proof -
  have h: "llm_invoke (mk_world llm_down rag_up sql_up) (routing_prompt ''most rented movies'')
     = Inl (Raised ''Rate limit exceeded'')"
    by (simp add: llm_invoke_mk_world llm_down_def)
  have b: "chat_openai (mk_world llm_down rag_up sql_up) = None"
    by (simp add: mk_world_def)
  show ?thesis
    by (simp add: nodes_run_def calls_made_def process_question_def
          run_classifier_raises [OF h] b)
qed

subsection \<open>C10: the question and the messages stay as they are\<close>

text \<open>
  C10. The \<^verbatim>\<open>question\<close> field of a result of \<^verbatim>\<open>process_question\<close> is the input
  text; no node changes the list of messages of the state it is given (the classifier,
  the retrieval node, the statistics node, and the node for both sources with its
  integration step); so the final state of a run holds exactly the one human message
  with the question that the initial state held.
\<close>

theorem question_and_messages_unchanged:
  "(process_question w q = Inr r \<longrightarrow> question r = q)
   \<and> (fst (run_workflow w q) = Inr final_state \<longrightarrow> messages final_state = [HumanMessage q])
   \<and> (determine_route w s0 log0 = (Inr s0', log0') \<longrightarrow> messages s0' = messages s0)
   \<and> (rag_node w s1 log1 = (Inr s1', log1') \<longrightarrow> messages s1' = messages s1)
   \<and> (sql_node w s2 log2 = (Inr s2', log2') \<longrightarrow> messages s2' = messages s2)
   \<and> (both_node w s3 log3 = (Inr s3', log3') \<longrightarrow> messages s3' = messages s3)"
proof -
  have a: "question r = q" if "process_question w q = Inr r"
    using process_question_returns_iff [OF that] by auto
  have b: "messages final_state = [HumanMessage q]" if f: "fst (run_workflow w q) = Inr final_state"
  proof (cases "llm_invoke w (routing_prompt q)")
    case (Inl e)
    with f show ?thesis by (simp add: run_classifier_raises)
  next
    case (Inr d)
    let ?s = "(initial_state q)\<lparr>next_step := upper (strip d)\<rparr>"
    obtain res log' where br: "branch_fn w (route_to_node ?s) ?s [LLMCall (routing_prompt q)] = (res, log')"
      by (cases "branch_fn w (route_to_node ?s) ?s [LLMCall (routing_prompt q)]") blast
    with f have "res = Inr final_state"
      by (simp add: run_classified [OF Inr])
    with br branch_fn_frame [of w "route_to_node ?s" ?s "[LLMCall (routing_prompt q)]" final_state log']
    show ?thesis
      by (simp add: initial_state_def)
  qed
  from a b show ?thesis
    using determine_route_frame [of w s0 log0 s0' log0'] rag_node_frame [of w s1 log1 s1' log1']
          sql_node_frame [of w s2 log2 s2' log2'] both_node_frame [of w s3 log3 s3' log3']
    by blast
qed

theorem question_and_messages_unchanged_witness:
  "process_question (mk_world (llm_says ''Unknown'') rag_up sql_up) ''most rented movies'' =
     Inr \<lparr>question = ''most rented movies'', response = ''Unknown'',
          route_taken = ''UNKNOWN'', error_out = None\<rparr>
   \<and> fst (run_workflow (mk_world (llm_says ''Unknown'') rag_up sql_up) ''most rented movies'') =
       Inr \<lparr>messages = [HumanMessage ''most rented movies''], next_step = ''UNKNOWN'',
            current_response = ''Unknown'', error = None\<rparr>
   \<and> determine_route (mk_world (llm_says ''Unknown'') rag_up sql_up)
         (initial_state ''most rented movies'') [] =
       (Inr \<lparr>messages = [HumanMessage ''most rented movies''], next_step = ''UNKNOWN'',
             current_response = [], error = None\<rparr>,
        [LLMCall (routing_prompt ''most rented movies'')])
   \<and> rag_node (mk_world (llm_says ''Unknown'') rag_up sql_up)
         (initial_state ''most rented movies'') [] =
       (Inr \<lparr>messages = [HumanMessage ''most rented movies''], next_step = [],
             current_response = ''A heist in dreams.'', error = None\<rparr>,
        [RagPost ''most rented movies''])
   \<and> sql_node (mk_world (llm_says ''Unknown'') rag_up sql_up)
         (initial_state ''most rented movies'') [] =
       (Inr \<lparr>messages = [HumanMessage ''most rented movies''], next_step = [],
             current_response =
               ''SQL Query: SELECT title FROM film LIMIT 5\<newline>Answer: Movie A, Movie B'',
             error = None\<rparr>,
        [SqlPost ''most rented movies''])
   \<and> both_node (mk_world (llm_says ''Unknown'') rag_up sql_up)
         (initial_state ''most rented movies'') [] =
       (Inr \<lparr>messages = [HumanMessage ''most rented movies''], next_step = [],
             current_response = ''Unknown'', error = None\<rparr>,
        [RagPost ''most rented movies'', SqlPost ''most rented movies'',
         LLMCall (integration_prompt ''most rented movies'' ''Movie A, Movie B''
                    ''A heist in dreams.'')])
   \<and> messages \<lparr>messages = [HumanMessage ''most rented movies''], next_step = ''UNKNOWN'',
                current_response = ''Unknown'', error = None\<rparr>
       = messages (initial_state ''most rented movies'')"
proof -
  let ?w = "mk_world (llm_says ''Unknown'') rag_up sql_up"
  let ?q = "''most rented movies''"
  have p: "process_question ?w ?q =
     Inr \<lparr>question = ?q, response = ''Unknown'', route_taken = ''UNKNOWN'', error_out = None\<rparr>"
    by (simp add: process_question_def run_unknown_world initial_state_def)
  have f: "fst (run_workflow ?w ?q) =
       Inr \<lparr>messages = [HumanMessage ?q], next_step = ''UNKNOWN'',
            current_response = ''Unknown'', error = None\<rparr>"
    by (simp add: run_unknown_world initial_state_def)
  have d: "determine_route ?w (initial_state ?q) [] =
       (Inr \<lparr>messages = [HumanMessage ?q], next_step = ''UNKNOWN'',
             current_response = [], error = None\<rparr>,
        [LLMCall (routing_prompt ?q)])"
    by (subst determine_route_initial)
       (simp add: mk_world_def llm_invoke_def ChatOpenAI_def llm_says_def norm_Unknown initial_state_def)
  have r: "rag_node ?w (initial_state ?q) [] =
       (Inr \<lparr>messages = [HumanMessage ?q], next_step = [],
             current_response = ''A heist in dreams.'', error = None\<rparr>,
        [RagPost ?q])"
    by (simp add: node_defs initial_state_def mk_world_def rag_up_def)
  have s: "sql_node ?w (initial_state ?q) [] =
       (Inr \<lparr>messages = [HumanMessage ?q], next_step = [],
             current_response =
               ''SQL Query: SELECT title FROM film LIMIT 5\<newline>Answer: Movie A, Movie B'',
             error = None\<rparr>,
        [SqlPost ?q])"
    by (simp add: node_defs initial_state_def mk_world_def sql_up_def)
  have b: "both_node ?w (initial_state ?q) [] =
       (Inr \<lparr>messages = [HumanMessage ?q], next_step = [],
             current_response = ''Unknown'', error = None\<rparr>,
        [RagPost ?q, SqlPost ?q,
         LLMCall (integration_prompt ?q ''Movie A, Movie B'' ''A heist in dreams.'')])"
    by (simp add: node_defs Let_def initial_state_def mk_world_def rag_up_def sql_up_def
          llm_says_def)
  from question_and_messages_unchanged [of ?w ?q _ _ "initial_state ?q" "[]" _ _
         "initial_state ?q" "[]" _ _ "initial_state ?q" "[]" _ _ "initial_state ?q" "[]"]
       p f d r s b
  have "messages \<lparr>messages = [HumanMessage ?q], next_step = ''UNKNOWN'',
                current_response = ''Unknown'', error = None\<rparr>
       = messages (initial_state ?q)"
    by (simp add: initial_state_def)
  with p f d r s b show ?thesis
    by blast
qed

end
